theory Spec2Isabelle
  imports Complex_Main "HOL-Library.Sublist" "HOL-Library.AList"
begin

section \<open>The settings store behind Preferences\<close>

text \<open>
  \<^verbatim>\<open>Preferences\<close> derives from Qt's \<^verbatim>\<open>QSettings\<close>: a store of \<^verbatim>\<open>QVariant\<close> values under
  hierarchical string keys. The store is a partial map; the values carry the payloads
  that preferences.cpp writes or reads (bool, int, qreal, QString, QStringList, QPointF,
  QVariantMap).
  A \<^verbatim>\<open>qreal\<close> is only ever stored and handed back here, never computed with, and is
  held as a real number.
\<close>

datatype QVariant =
    Invalid
  | VBool bool
  | VInt int
  | VDouble real
  | VString string
  | VStringList "string list"
  | VPointF real real
  | VMap "(string \<times> QVariant) list"

type_synonym QVariantMap = "(string \<times> QVariant) list"

type_synonym QSettings = "string \<rightharpoonup> QVariant"

text \<open>
  \<^verbatim>\<open>QVariant::value<T>()\<close>: the payload when it has the requested type, Qt's
  conversion between bool, int and double, a single text as a one-element list, and
  the default-constructed \<^verbatim>\<open>T\<close> where the embedding follows no conversion (texts are not
  parsed into numbers, numbers are not printed as texts).
\<close>

fun toBool :: "QVariant \<Rightarrow> bool" where
  "toBool (VBool b) = b"
| "toBool (VInt i) = (i \<noteq> 0)"
| "toBool (VDouble r) = (r \<noteq> 0)"
| "toBool _ = False"

fun toInt :: "QVariant \<Rightarrow> int" where
  "toInt (VInt i) = i"
| "toInt (VBool b) = (if b then 1 else 0)"
| "toInt _ = 0"

fun toDouble :: "QVariant \<Rightarrow> real" where
  "toDouble (VDouble r) = r"
| "toDouble (VInt i) = of_int i"
| "toDouble (VBool b) = (if b then 1 else 0)"
| "toDouble _ = 0"

fun toString :: "QVariant \<Rightarrow> string" where
  "toString (VString s) = s"
| "toString _ = []"

fun toStringList :: "QVariant \<Rightarrow> string list" where
  "toStringList (VStringList l) = l"
| "toStringList (VString s) = [s]"
| "toStringList _ = []"

fun toMap :: "QVariant \<Rightarrow> QVariantMap" where
  "toMap (VMap m) = m"
| "toMap _ = []"

type_synonym QPointF = "real \<times> real"

fun toPointF :: "QVariant \<Rightarrow> QPointF" where
  "toPointF (VPointF x y) = (x, y)"
| "toPointF _ = (0, 0)"

text \<open>
  A \<^verbatim>\<open>QColor\<close> is kept by the constructor that made it: from a colour name, from
  red, green and blue, or the invalid colour. A \<^verbatim>\<open>QDate\<close> is its Julian day number and
  a \<^verbatim>\<open>QDateTime\<close> its milliseconds since the epoch, \<open>None\<close> being the null (invalid)
  value of either. Dates are stored as ISO texts; the parser \<^verbatim>\<open>QDate::fromString\<close> is Qt's
  and is a parameter \<open>fromString\<close> wherever a date is read.
\<close>

datatype QColor = QColor_invalid | QColor_name string | QColor_rgb int int int

definition black :: QColor where
  "black = QColor_rgb 0 0 0"

definition lightGray :: QColor where
  "lightGray = QColor_rgb 192 192 192"

fun toColor :: "QVariant \<Rightarrow> QColor" where
  "toColor (VString s) = QColor_name s"
| "toColor _ = QColor_invalid"

type_synonym QDate = "int option"

type_synonym QDateTime = "int option"

definition isValid :: "QDate \<Rightarrow> bool" where
  "isValid d = (d \<noteq> None)"

fun daysTo :: "QDate \<Rightarrow> QDate \<Rightarrow> int" where
  "daysTo (Some jd) (Some jd') = jd' - jd"
| "daysTo _ _ = 0"

fun toDate :: "(string \<Rightarrow> QDate) \<Rightarrow> QVariant \<Rightarrow> QDate" where
  "toDate fromString (VString s) = fromString s"
| "toDate fromString _ = None"

text \<open>
  \<^verbatim>\<open>QMap::value(key)\<close> gives a default-constructed value for a missing key;
  \<^verbatim>\<open>QMap::insert\<close> replaces the value of a key already there. The entries are kept
  as an association list.
\<close>

definition qmap_value :: "QVariantMap \<Rightarrow> string \<Rightarrow> QVariant" where
  "qmap_value m key = (case map_of m key of None \<Rightarrow> Invalid | Some v \<Rightarrow> v)"

definition qmap_insert :: "string \<Rightarrow> QVariant \<Rightarrow> QVariantMap \<Rightarrow> QVariantMap" where
  "qmap_insert key v m = AList.update key v m"

text \<open>
  \<^verbatim>\<open>QSettings::setValue\<close>, \<^verbatim>\<open>contains\<close> and \<^verbatim>\<open>remove\<close>. Removing a key removes the
  setting of that name and every setting below it (\<^verbatim>\<open>key/...\<close>).
\<close>

definition setValue :: "string \<Rightarrow> QVariant \<Rightarrow> QSettings \<Rightarrow> QSettings" where
  "setValue key v s = s(key \<mapsto> v)"

definition settings_contains :: "QSettings \<Rightarrow> string \<Rightarrow> bool" where
  "settings_contains s key = (s key \<noteq> None)"

definition settings_remove :: "string \<Rightarrow> QSettings \<Rightarrow> QSettings" where
  "settings_remove key s =
     (\<lambda>k. if k = key \<or> prefix (key @ ''/'') k then None else s k)"

text \<open>
  Modelled from the spec: the template \<^verbatim>\<open>Preferences::get<T>(key, defaultValue)\<close> is
  declared in preferences.h, which is not among the sources. Following section 7
  (missing keys are resolved via defaults) it looks the key up, takes the default when
  the key is absent, and converts the value to \<^verbatim>\<open>T\<close>. One instance per type used.
\<close>

definition get_bool :: "QSettings \<Rightarrow> string \<Rightarrow> bool \<Rightarrow> bool" where
  "get_bool s key defaultValue =
     (case s key of None \<Rightarrow> defaultValue | Some v \<Rightarrow> toBool v)"

definition get_int :: "QSettings \<Rightarrow> string \<Rightarrow> int \<Rightarrow> int" where
  "get_int s key defaultValue =
     (case s key of None \<Rightarrow> defaultValue | Some v \<Rightarrow> toInt v)"

definition get_qreal :: "QSettings \<Rightarrow> string \<Rightarrow> real \<Rightarrow> real" where
  "get_qreal s key defaultValue =
     (case s key of None \<Rightarrow> defaultValue | Some v \<Rightarrow> toDouble v)"

definition get_QString :: "QSettings \<Rightarrow> string \<Rightarrow> string \<Rightarrow> string" where
  "get_QString s key defaultValue =
     (case s key of None \<Rightarrow> defaultValue | Some v \<Rightarrow> toString v)"

definition get_QStringList :: "QSettings \<Rightarrow> string \<Rightarrow> string list \<Rightarrow> string list" where
  "get_QStringList s key defaultValue =
     (case s key of None \<Rightarrow> defaultValue | Some v \<Rightarrow> toStringList v)"

definition get_QVariantMap :: "QSettings \<Rightarrow> string \<Rightarrow> QVariantMap \<Rightarrow> QVariantMap" where
  "get_QVariantMap s key defaultValue =
     (case s key of None \<Rightarrow> defaultValue | Some v \<Rightarrow> toMap v)"

definition get_QColor :: "QSettings \<Rightarrow> string \<Rightarrow> QColor \<Rightarrow> QColor" where
  "get_QColor s key defaultValue =
     (case s key of None \<Rightarrow> defaultValue | Some v \<Rightarrow> toColor v)"

definition get_QDate :: "(string \<Rightarrow> QDate) \<Rightarrow> QSettings \<Rightarrow> string \<Rightarrow> QDate \<Rightarrow> QDate" where
  "get_QDate fromString s key defaultValue =
     (case s key of None \<Rightarrow> defaultValue | Some v \<Rightarrow> toDate fromString v)"

section \<open>The state of Preferences and of the objects it drives\<close>

text \<open>
  An object type is a name with a colour. The state of a plugin is one of four values.
  A session carries its file name, the recent and open files, the active file and the
  per-file states. The timer that delays the saving of the session is a \<^verbatim>\<open>QTimer\<close>:
  its interval in milliseconds, whether it is single-shot, and the time at which it
  expires while it is active.
\<close>

datatype ObjectType = ObjectType (name: string) (color: QColor)

type_synonym ObjectTypes = "ObjectType list"

datatype PluginState = PluginDefault | PluginEnabled | PluginDisabled | PluginStatic

datatype FileType =
    ExportedFile | ExternalTileset | ImageFile | ObjectTemplateFile
  | ObjectTypesFile | ProjectFile | WorldFile

datatype Signal = objectTypesChanged | recentProjectsChanged | aboutToSaveSession

record Session =
  sessionFileName :: string
  recentFiles :: "string list"
  openFiles :: "string list"
  activeFile :: string
  fileStates :: "(string \<times> QVariantMap) list"

record QTimer =
  interval :: nat
  singleShot :: bool
  expiry :: "nat option"

definition isActive :: "QTimer \<Rightarrow> bool" where
  "isActive t = (expiry t \<noteq> None)"

definition start :: "nat \<Rightarrow> QTimer \<Rightarrow> QTimer" where
  "start now t = t\<lparr>expiry := Some (now + interval t)\<rparr>"

definition stop :: "QTimer \<Rightarrow> QTimer" where
  "stop t = t\<lparr>expiry := None\<rparr>"

text \<open>
  The fields of \<^verbatim>\<open>Preferences\<close>, with the state it reaches through singletons and
  statics: the object types of \<^verbatim>\<open>Object\<close>, the safe-saving flag of \<^verbatim>\<open>SaveFile\<close>, the
  plugin states of the \<^verbatim>\<open>PluginManager\<close> (a \<^verbatim>\<open>QMap\<close>, held as its entries in iteration
  order), the signals emitted so far, and the sessions handed to \<^verbatim>\<open>Session::save\<close> so
  far (latest first). The file-system watcher is Tiled's own class and not among the
  sources: its state is the type parameter \<open>'w\<close>, its \<^verbatim>\<open>addPath\<close> and \<^verbatim>\<open>removePath\<close>
  are parameters of the functions that call them.
\<close>

record 'w Preferences =
  settings :: QSettings
  mSession :: Session
  mWatcher :: 'w
  mSaveSessionTimer :: QTimer
  mObjectTypesFileLastSaved :: QDateTime
  mObjectTypes :: ObjectTypes
  mSafeSavingEnabled :: bool
  mPluginStates :: "(string \<times> PluginState) list"
  emitted :: "Signal list"
  sessionSaves :: "Session list"

section \<open>Getters and setters\<close>

definition showGrid :: "'w Preferences \<Rightarrow> bool" where
  "showGrid p = get_bool (settings p) ''Interface/ShowGrid'' True"

definition showTileObjectOutlines :: "'w Preferences \<Rightarrow> bool" where
  "showTileObjectOutlines p = get_bool (settings p) ''Interface/ShowTileObjectOutlines'' False"

definition showTileAnimations :: "'w Preferences \<Rightarrow> bool" where
  "showTileAnimations p = get_bool (settings p) ''Interface/ShowTileAnimations'' True"

definition showTileCollisionShapes :: "'w Preferences \<Rightarrow> bool" where
  "showTileCollisionShapes p = get_bool (settings p) ''Interface/ShowTileCollisionShapes'' False"

definition showObjectReferences :: "'w Preferences \<Rightarrow> bool" where
  "showObjectReferences p = get_bool (settings p) ''Interface/ShowObjectReferences'' True"

definition snapToGrid :: "'w Preferences \<Rightarrow> bool" where
  "snapToGrid p = get_bool (settings p) ''Interface/SnapToGrid'' False"

definition snapToFineGrid :: "'w Preferences \<Rightarrow> bool" where
  "snapToFineGrid p = get_bool (settings p) ''Interface/SnapToFineGrid'' False"

definition snapToPixels :: "'w Preferences \<Rightarrow> bool" where
  "snapToPixels p = get_bool (settings p) ''Interface/SnapToPixels'' False"

definition gridColor :: "'w Preferences \<Rightarrow> QColor" where
  "gridColor p = get_QColor (settings p) ''Interface/GridColor'' black"

definition gridFine :: "'w Preferences \<Rightarrow> int" where
  "gridFine p = get_int (settings p) ''Interface/GridFine'' 4"

definition objectLineWidth :: "'w Preferences \<Rightarrow> real" where
  "objectLineWidth p = get_qreal (settings p) ''Interface/ObjectLineWidth'' 2.0"

definition highlightCurrentLayer :: "'w Preferences \<Rightarrow> bool" where
  "highlightCurrentLayer p = get_bool (settings p) ''Interface/HighlightCurrentLayer'' False"

definition highlightHoveredObject :: "'w Preferences \<Rightarrow> bool" where
  "highlightHoveredObject p = get_bool (settings p) ''Interface/HighlightHoveredObject'' True"

definition showTilesetGrid :: "'w Preferences \<Rightarrow> bool" where
  "showTilesetGrid p = get_bool (settings p) ''Interface/ShowTilesetGrid'' True"

definition labelForHoveredObject :: "'w Preferences \<Rightarrow> bool" where
  "labelForHoveredObject p = get_bool (settings p) ''Interface/LabelForHoveredObject'' False"

definition baseColor :: "'w Preferences \<Rightarrow> QColor" where
  "baseColor p = get_QColor (settings p) ''Interface/BaseColor'' lightGray"

definition selectionColor :: "'w Preferences \<Rightarrow> QColor" where
  "selectionColor p = get_QColor (settings p) ''Interface/SelectionColor'' (QColor_rgb 48 140 198)"

definition safeSavingEnabled :: "'w Preferences \<Rightarrow> bool" where
  "safeSavingEnabled p = get_bool (settings p) ''SafeSavingEnabled'' True"

definition setSafeSavingEnabled :: "bool \<Rightarrow> 'w Preferences \<Rightarrow> 'w Preferences" where
  "setSafeSavingEnabled enabled p =
     p\<lparr>settings := setValue ''Storage/SafeSavingEnabled'' (VBool enabled) (settings p),
       mSafeSavingEnabled := enabled\<rparr>"

definition exportOnSave :: "'w Preferences \<Rightarrow> bool" where
  "exportOnSave p = get_bool (settings p) ''Storage/ExportOnSave'' False"

definition setExportOnSave :: "bool \<Rightarrow> 'w Preferences \<Rightarrow> 'w Preferences" where
  "setExportOnSave enabled p =
     p\<lparr>settings := setValue ''Storage/ExportOnSave'' (VBool enabled) (settings p)\<rparr>"

text \<open>
  The enumerations are passed through \<^verbatim>\<open>static_cast\<close> from the stored int and are kept
  as that int. Their enumerators (\<^verbatim>\<open>AllObjectLabels\<close>, \<^verbatim>\<open>TiledStyle\<close>,
  \<^verbatim>\<open>SystemDefaultStyle\<close>, \<^verbatim>\<open>Map::CSV\<close>, \<^verbatim>\<open>Map::RightDown\<close>) are declared in headers
  that are not among the sources and are parameters, as is the platform switch
  \<^verbatim>\<open>Q_OS_MAC\<close>.
\<close>

definition objectLabelVisibility :: "int \<Rightarrow> 'w Preferences \<Rightarrow> int" where
  "objectLabelVisibility AllObjectLabels p =
     get_int (settings p) ''Interface/ObjectLabelVisibility'' AllObjectLabels"

definition applicationStyle :: "bool \<Rightarrow> int \<Rightarrow> int \<Rightarrow> 'w Preferences \<Rightarrow> int" where
  "applicationStyle Q_OS_MAC SystemDefaultStyle TiledStyle p =
     (if Q_OS_MAC
      then get_int (settings p) ''Interface/ApplicationStyle'' SystemDefaultStyle
      else get_int (settings p) ''Interface/ApplicationStyle'' TiledStyle)"

definition layerDataFormat :: "int \<Rightarrow> 'w Preferences \<Rightarrow> int" where
  "layerDataFormat CSV p = get_int (settings p) ''Storage/LayerDataFormat'' CSV"

definition mapRenderOrder :: "int \<Rightarrow> 'w Preferences \<Rightarrow> int" where
  "mapRenderOrder RightDown p = get_int (settings p) ''Storage/MapRenderOrder'' RightDown"

datatype ExportOption =
  EmbedTilesets | DetachTemplateInstances | ResolveObjectTypesAndProperties | ExportMinimized

fun exportOption :: "ExportOption \<Rightarrow> 'w Preferences \<Rightarrow> bool" where
  "exportOption EmbedTilesets p = get_bool (settings p) ''Export/EmbedTilesets'' False"
| "exportOption DetachTemplateInstances p =
     get_bool (settings p) ''Export/DetachTemplateInstances'' False"
| "exportOption ResolveObjectTypesAndProperties p =
     get_bool (settings p) ''Export/ResolveObjectTypesAndProperties'' False"
| "exportOption ExportMinimized p = get_bool (settings p) ''Export/Minimized'' False"

definition lastSession :: "string \<Rightarrow> 'w Preferences \<Rightarrow> string" where
  "lastSession defaultFileName p =
     (let session = get_QString (settings p) ''Project/LastSession'' [] in
      if session = [] then defaultFileName else session)"

definition language :: "'w Preferences \<Rightarrow> string" where
  "language p = get_QString (settings p) ''Interface/Language'' []"

definition reloadTilesetsOnChange :: "'w Preferences \<Rightarrow> bool" where
  "reloadTilesetsOnChange p = get_bool (settings p) ''Storage/ReloadTilesets'' True"

definition useOpenGL :: "'w Preferences \<Rightarrow> bool" where
  "useOpenGL p = get_bool (settings p) ''Interface/OpenGL'' False"

definition firstRun :: "(string \<Rightarrow> QDate) \<Rightarrow> 'w Preferences \<Rightarrow> QDate" where
  "firstRun fromString p = get_QDate fromString (settings p) ''Install/FirstRun'' None"

definition runCount :: "'w Preferences \<Rightarrow> int" where
  "runCount p = get_int (settings p) ''Install/RunCount'' 0"

definition isPatron :: "'w Preferences \<Rightarrow> bool" where
  "isPatron p = get_bool (settings p) ''Install/IsPatron'' False"

definition donationDialogTime :: "(string \<Rightarrow> QDate) \<Rightarrow> 'w Preferences \<Rightarrow> QDate" where
  "donationDialogTime fromString p =
     get_QDate fromString (settings p) ''Install/DonationDialogTime'' None"

text \<open>\<^verbatim>\<open>QDate::currentDate()\<close> is the parameter \<open>currentDate\<close>.\<close>

definition shouldShowDonationDialog ::
  "(string \<Rightarrow> QDate) \<Rightarrow> QDate \<Rightarrow> 'w Preferences \<Rightarrow> bool" where
  "shouldShowDonationDialog fromString currentDate p =
     (if isPatron p then False
      else if runCount p < 7 then False
      else let dialogTime = donationDialogTime fromString p in
        if \<not> isValid dialogTime then False
        else daysTo dialogTime currentDate \<ge> 0)"

definition recentProjects :: "'w Preferences \<Rightarrow> string list" where
  "recentProjects p = get_QStringList (settings p) ''Project/RecentProjects'' []"

definition restoreSessionOnStartup :: "'w Preferences \<Rightarrow> bool" where
  "restoreSessionOnStartup p = get_bool (settings p) ''Startup/RestorePreviousSession'' True"

definition checkForUpdates :: "'w Preferences \<Rightarrow> bool" where
  "checkForUpdates p = get_bool (settings p) ''Install/CheckForUpdates'' True"

definition displayNews :: "'w Preferences \<Rightarrow> bool" where
  "displayNews p = get_bool (settings p) ''Install/DisplayNews'' True"

definition wheelZoomsByDefault :: "'w Preferences \<Rightarrow> bool" where
  "wheelZoomsByDefault p = get_bool (settings p) ''Interface/WheelZoomsByDefault'' False"

text \<open>
  \<^verbatim>\<open>QStandardPaths::writableLocation(AppDataLocation)\<close>, the result of
  \<^verbatim>\<open>Preferences::dataLocation()\<close>, is the parameter \<open>dataLocation\<close>.
\<close>

definition objectTypesFile :: "string \<Rightarrow> 'w Preferences \<Rightarrow> string" where
  "objectTypesFile dataLocation p =
     (let file = get_QString (settings p) ''Storage/ObjectTypesFile'' [] in
      if file = [] then dataLocation @ ''/objecttypes.xml'' else file)"

section \<open>Recent projects\<close>

fun lastPathKey :: "FileType \<Rightarrow> string" where
  "lastPathKey ExportedFile = ''LastPaths/'' @ ''ExportedFile''"
| "lastPathKey ExternalTileset = ''LastPaths/'' @ ''ExternalTileset''"
| "lastPathKey ImageFile = ''LastPaths/'' @ ''Images''"
| "lastPathKey ObjectTemplateFile = ''LastPaths/'' @ ''ObjectTemplates''"
| "lastPathKey ObjectTypesFile = ''LastPaths/'' @ ''ObjectTypes''"
| "lastPathKey ProjectFile = ''LastPaths/'' @ ''Project''"
| "lastPathKey WorldFile = ''LastPaths/'' @ ''WorldFile''"

definition setLastPath :: "FileType \<Rightarrow> string \<Rightarrow> 'w Preferences \<Rightarrow> 'w Preferences" where
  "setLastPath fileType path p =
     (if path = [] then p
      else p\<lparr>settings := setValue (lastPathKey fileType) (VString path) (settings p)\<rparr>)"

text \<open>
  The loop \<^verbatim>\<open>while (files.size() > MaxRecentFiles) files.removeLast()\<close>. The constant
  \<^verbatim>\<open>MaxRecentFiles\<close> is declared in a header that is not among the sources and is a
  parameter.
\<close>

function removeLastWhileLonger :: "nat \<Rightarrow> string list \<Rightarrow> string list" where
  "removeLastWhileLonger MaxRecentFiles files =
     (if length files > MaxRecentFiles
      then removeLastWhileLonger MaxRecentFiles (butlast files)
      else files)"
  by pat_completeness auto
termination
  by (relation "measure (\<lambda>(MaxRecentFiles, files). length files)") auto

declare removeLastWhileLonger.simps [simp del]

text \<open>
  \<^verbatim>\<open>QDir::cleanPath(QFileInfo(fileName).absoluteFilePath())\<close> is computed by Qt from the
  file system; the two functions are the parameters \<open>cleanPath\<close> and \<open>absolutePath\<close>.
\<close>

definition addToRecentFileList ::
  "(string \<Rightarrow> string) \<Rightarrow> (string \<Rightarrow> string) \<Rightarrow> nat \<Rightarrow> string \<Rightarrow> string list \<Rightarrow> string list" where
  "addToRecentFileList cleanPath absolutePath MaxRecentFiles fileName files =
     (let absoluteFilePath = cleanPath (absolutePath fileName) in
      if absoluteFilePath = [] then files
      else removeLastWhileLonger MaxRecentFiles (absoluteFilePath # removeAll absoluteFilePath files))"

definition addRecentProject ::
  "(string \<Rightarrow> string) \<Rightarrow> (string \<Rightarrow> string) \<Rightarrow> nat \<Rightarrow> string \<Rightarrow> 'w Preferences \<Rightarrow> 'w Preferences" where
  "addRecentProject cleanPath absolutePath MaxRecentFiles fileName p =
     (let p1 = setLastPath ProjectFile fileName p;
          files = get_QStringList (settings p1) ''Project/RecentProjects'' [];
          files = addToRecentFileList cleanPath absolutePath MaxRecentFiles fileName files
      in p1\<lparr>settings := setValue ''Project/RecentProjects'' (VStringList files) (settings p1),
             emitted := emitted p1 @ [recentProjectsChanged]\<rparr>)"

section \<open>Plugins\<close>

text \<open>
  The loop of \<^verbatim>\<open>setPluginEnabled\<close> over the plugin states, with the two lists it fills
  (the disabled plugins first, the enabled ones second).
\<close>

fun collectPluginLists ::
  "(string \<times> PluginState) list \<Rightarrow> string list \<times> string list \<Rightarrow> string list \<times> string list" where
  "collectPluginLists [] (disabledPlugins, enabledPlugins) = (disabledPlugins, enabledPlugins)"
| "collectPluginLists ((fileName, state) # states) (disabledPlugins, enabledPlugins) =
     collectPluginLists states
       (case state of
          PluginEnabled \<Rightarrow> (disabledPlugins, enabledPlugins @ [fileName])
        | PluginDisabled \<Rightarrow> (disabledPlugins @ [fileName], enabledPlugins)
        | PluginDefault \<Rightarrow> (disabledPlugins, enabledPlugins)
        | PluginStatic \<Rightarrow> (disabledPlugins, enabledPlugins))"

text \<open>
  \<^verbatim>\<open>PluginManager::setPluginState\<close> is not among the sources; what it does to the plugin
  states is the parameter \<open>setPluginState\<close>.
\<close>

definition setPluginEnabled ::
  "(string \<Rightarrow> PluginState \<Rightarrow> (string \<times> PluginState) list \<Rightarrow> (string \<times> PluginState) list)
   \<Rightarrow> string \<Rightarrow> bool \<Rightarrow> 'w Preferences \<Rightarrow> 'w Preferences" where
  "setPluginEnabled setPluginState fileName enabled p =
     (let states = setPluginState fileName (if enabled then PluginEnabled else PluginDisabled)
                     (mPluginStates p);
          (disabledPlugins, enabledPlugins) = collectPluginLists states ([], [])
      in p\<lparr>mPluginStates := states,
            settings := setValue ''Plugins/Enabled'' (VStringList enabledPlugins)
                          (setValue ''Plugins/Disabled'' (VStringList disabledPlugins) (settings p))\<rparr>)"

section \<open>The object types file\<close>

definition setObjectTypes :: "ObjectTypes \<Rightarrow> 'w Preferences \<Rightarrow> 'w Preferences" where
  "setObjectTypes objectTypes p =
     p\<lparr>mObjectTypes := objectTypes, emitted := emitted p @ [objectTypesChanged]\<rparr>"

definition setObjectTypesFile ::
  "(string \<Rightarrow> 'w \<Rightarrow> 'w) \<Rightarrow> (string \<Rightarrow> 'w \<Rightarrow> 'w) \<Rightarrow> string
   \<Rightarrow> string \<Rightarrow> 'w Preferences \<Rightarrow> 'w Preferences" where
  "setObjectTypesFile addPath removePath dataLocation fileName p =
     (let previousObjectTypesFile = objectTypesFile dataLocation p in
      if previousObjectTypesFile = fileName then p
      else
        let p1 = (if previousObjectTypesFile \<noteq> []
                  then p\<lparr>mWatcher := removePath previousObjectTypesFile (mWatcher p)\<rparr>
                  else p);
            p2 = p1\<lparr>settings := setValue ''Storage/ObjectTypesFile'' (VString fileName) (settings p1)\<rparr>
        in p2\<lparr>mWatcher := addPath fileName (mWatcher p2)\<rparr>)"

definition setObjectTypesFileLastSaved :: "QDateTime \<Rightarrow> 'w Preferences \<Rightarrow> 'w Preferences" where
  "setObjectTypesFileLastSaved time p = p\<lparr>mObjectTypesFileLastSaved := time\<rparr>"

text \<open>
  \<^verbatim>\<open>ObjectTypesSerializer::readObjectTypes(fileName, objectTypes)\<close> is not among the
  sources. It is the parameter \<open>readObjectTypes\<close>: given the file name and the list it is
  handed, it returns whether it succeeded and the list as it leaves it. The time
  \<^verbatim>\<open>QFileInfo::lastModified()\<close> of a path is the parameter \<open>lastModified\<close>.
\<close>

definition objectTypesFileChangedOnDisk ::
  "string \<Rightarrow> (string \<Rightarrow> QDateTime) \<Rightarrow> (string \<Rightarrow> ObjectTypes \<Rightarrow> bool \<times> ObjectTypes)
   \<Rightarrow> 'w Preferences \<Rightarrow> 'w Preferences" where
  "objectTypesFileChangedOnDisk dataLocation lastModified readObjectTypes p =
     (let filePath = objectTypesFile dataLocation p in
      if lastModified filePath = mObjectTypesFileLastSaved p then p
      else
        let (success, objectTypes) = readObjectTypes filePath [] in
        if success then setObjectTypes objectTypes p else p)"

section \<open>The constructor: object types, the save timer, the migration to the session\<close>




text \<open>Lines 98 and 99: the timer is set to one second, single-shot.\<close>

definition setupSaveSessionTimer :: "'w Preferences \<Rightarrow> 'w Preferences" where
  "setupSaveSessionTimer p =
     p\<lparr>mSaveSessionTimer := (mSaveSessionTimer p)\<lparr>interval := 1000, singleShot := True\<rparr>\<rparr>"

text \<open>
  The loop over the legacy map states (lines 156 to 165). \<^verbatim>\<open>Session::setFileState\<close> and
  \<^verbatim>\<open>toSettingsValue\<close> are not among the sources and are parameters.
\<close>

fun migrateMapStates ::
  "(string \<Rightarrow> QVariantMap \<Rightarrow> Session \<Rightarrow> Session) \<Rightarrow> (QPointF \<Rightarrow> QVariant)
   \<Rightarrow> QVariantMap \<Rightarrow> Session \<Rightarrow> Session" where
  "migrateMapStates setFileState toSettingsValue [] session = session"
| "migrateMapStates setFileState toSettingsValue ((fileName, v) # mapStates) session =
     (let mapState = toMap v;
          viewCenter = toPointF (qmap_value mapState ''viewCenter'');
          mapState = qmap_insert ''viewCenter'' (toSettingsValue viewCenter) mapState
      in migrateMapStates setFileState toSettingsValue mapStates
           (setFileState fileName mapState session))"

text \<open>
  Lines 145 to 172: the migration that needs manual handling, in its three steps: the
  recent files (lines 147 to 151), the map states (lines 153 to 166), and the saving of
  the session with the removal of the legacy keys (lines 168 to 171). Whether
  \<^verbatim>\<open>Session::save\<close> succeeds is decided by the file system: it is the parameter \<open>save\<close>.
  \<^verbatim>\<open>Session::defaultFileName()\<close> is the parameter \<open>defaultFileName\<close>.
\<close>

definition migrateRecentFiles :: "'w Preferences \<Rightarrow> 'w Preferences" where
  "migrateRecentFiles p =
     (if settings_contains (settings p) ''recentFiles''
      then p\<lparr>mSession := (mSession p)
             \<lparr>recentFiles := get_QStringList (settings p) ''recentFiles/fileNames'' [],
              openFiles := get_QStringList (settings p) ''recentFiles/lastOpenFiles'' [],
              activeFile := get_QString (settings p) ''recentFiles/lastActive'' []\<rparr>\<rparr>
      else p)"

definition migrateLegacyMapStates ::
  "(string \<Rightarrow> QVariantMap \<Rightarrow> Session \<Rightarrow> Session) \<Rightarrow> (QPointF \<Rightarrow> QVariant)
   \<Rightarrow> 'w Preferences \<Rightarrow> 'w Preferences" where
  "migrateLegacyMapStates setFileState toSettingsValue p =
     (if settings_contains (settings p) ''MapEditor/MapStates''
      then let mapStates = get_QVariantMap (settings p) ''MapEditor/MapStates'' []
           in p\<lparr>mSession :=
                  migrateMapStates setFileState toSettingsValue mapStates (mSession p)\<rparr>
      else p)"

definition saveAndRemoveLegacy :: "(Session \<Rightarrow> bool) \<Rightarrow> 'w Preferences \<Rightarrow> 'w Preferences" where
  "saveAndRemoveLegacy save p =
     (let p1 = p\<lparr>sessionSaves := mSession p # sessionSaves p\<rparr> in
      if save (mSession p)
      then p1\<lparr>settings := settings_remove ''MapEditor/MapStates''
                              (settings_remove ''recentFiles'' (settings p1))\<rparr>
      else p1)"

definition migrateRecentFilesAndMapStates ::
  "string \<Rightarrow> (Session \<Rightarrow> bool) \<Rightarrow> (string \<Rightarrow> QVariantMap \<Rightarrow> Session \<Rightarrow> Session)
   \<Rightarrow> (QPointF \<Rightarrow> QVariant) \<Rightarrow> 'w Preferences \<Rightarrow> 'w Preferences" where
  "migrateRecentFilesAndMapStates defaultFileName save setFileState toSettingsValue p =
     (if sessionFileName (mSession p) = defaultFileName
      then saveAndRemoveLegacy save
             (migrateLegacyMapStates setFileState toSettingsValue (migrateRecentFiles p))
      else p)"

section \<open>Saving the session\<close>

text \<open>
  \<^verbatim>\<open>QTimer::start()\<close> reads the clock; the time of the call is the parameter \<open>now\<close>.
\<close>

definition saveSession :: "nat \<Rightarrow> 'w Preferences \<Rightarrow> 'w Preferences" where
  "saveSession now p =
     (if \<not> isActive (mSaveSessionTimer p)
      then p\<lparr>mSaveSessionTimer := start now (mSaveSessionTimer p)\<rparr>
      else p)"

definition saveSessionNow :: "'w Preferences \<Rightarrow> 'w Preferences" where
  "saveSessionNow p =
     p\<lparr>emitted := emitted p @ [aboutToSaveSession],
       mSaveSessionTimer := stop (mSaveSessionTimer p),
       sessionSaves := mSession p # sessionSaves p\<rparr>"

text \<open>
  The event loop around the timer. Time is counted in milliseconds. Three things
  happen: some code calls \<^verbatim>\<open>saveSession\<close>, time passes, or the event loop delivers the
  timer's event. The event is delivered only once the timer has expired, possibly late;
  a single-shot timer is inactive from then on, another one is armed again; then the
  connected slot runs, which is \<^verbatim>\<open>saveSessionNow\<close> (line 100). The world keeps the time
  of every session write that a delivery made.
\<close>

datatype Event = SaveSessionCalled | TimePasses nat | TimerEvent

record 'w World =
  clock :: nat
  prefs :: "'w Preferences"
  writeTimes :: "nat list"

definition expired :: "nat \<Rightarrow> QTimer \<Rightarrow> bool" where
  "expired now t = (case expiry t of None \<Rightarrow> False | Some e \<Rightarrow> e \<le> now)"

definition rearm :: "nat \<Rightarrow> QTimer \<Rightarrow> QTimer" where
  "rearm now t = (if singleShot t then stop t else start now t)"

fun step :: "Event \<Rightarrow> 'w World \<Rightarrow> 'w World" where
  "step SaveSessionCalled w = w\<lparr>prefs := saveSession (clock w) (prefs w)\<rparr>"
| "step (TimePasses d) w = w\<lparr>clock := clock w + d\<rparr>"
| "step TimerEvent w =
     (if expired (clock w) (mSaveSessionTimer (prefs w)) then
        let p = prefs w;
            p1 = p\<lparr>mSaveSessionTimer := rearm (clock w) (mSaveSessionTimer p)\<rparr>;
            p2 = saveSessionNow p1;
            n = length (sessionSaves p2) - length (sessionSaves p)
        in w\<lparr>prefs := p2, writeTimes := replicate n (clock w) @ writeTimes w\<rparr>
      else w)"

fun run :: "Event list \<Rightarrow> 'w World \<Rightarrow> 'w World" where
  "run [] w = w"
| "run (e # es) w = run es (step e w)"

text \<open>
  The world right after the constructor has set up the timer, the write times of a run
  being at least \<open>gap\<close> milliseconds apart (latest first), and the invariant of the
  event loop: the timer keeps its interval of one second, no write lies in the future,
  and a pending expiry lies at least one second after every write made so far.
\<close>

definition startWorld :: "'w Preferences \<Rightarrow> 'w World" where
  "startWorld p = \<lparr>clock = 0, prefs = setupSaveSessionTimer p, writeTimes = []\<rparr>"

definition spaced :: "nat \<Rightarrow> nat list \<Rightarrow> bool" where
  "spaced gap ts = sorted_wrt (\<lambda>later earlier. earlier + gap \<le> later) ts"

definition timer_inv :: "'w World \<Rightarrow> bool" where
  "timer_inv w =
     (interval (mSaveSessionTimer (prefs w)) = 1000
    \<and> (\<forall>t \<in> set (writeTimes w). t \<le> clock w)
    \<and> (\<forall>e. expiry (mSaveSessionTimer (prefs w)) = Some e \<longrightarrow>
           (\<forall>t \<in> set (writeTimes w). t + 1000 \<le> e))
    \<and> spaced 1000 (writeTimes w))"

section \<open>A first start\<close>



text \<open>
  The state before anything was stored: an empty settings store, a session without
  files, a timer as \<^verbatim>\<open>QTimer\<close> constructs it, no object types, no plugin states.
\<close>

definition freshSession :: "string \<Rightarrow> Session" where
  "freshSession fileName =
     \<lparr>sessionFileName = fileName, recentFiles = [], openFiles = [], activeFile = [],
      fileStates = []\<rparr>"

definition freshPreferences :: "string \<Rightarrow> 'w \<Rightarrow> 'w Preferences" where
  "freshPreferences fileName watcher =
     \<lparr>settings = Map.empty,
      mSession = freshSession fileName,
      mWatcher = watcher,
      mSaveSessionTimer = \<lparr>interval = 0, singleShot = False, expiry = None\<rparr>,
      mObjectTypesFileLastSaved = None,
      mObjectTypes = [],
      mSafeSavingEnabled = True,
      mPluginStates = [],
      emitted = [],
      sessionSaves = []\<rparr>"

section \<open>Properties of the getters and setters\<close>

lemma get_absent:
  "s key = None \<Longrightarrow> get_bool s key b = b"
  "s key = None \<Longrightarrow> get_int s key i = i"
  "s key = None \<Longrightarrow> get_qreal s key r = r"
  "s key = None \<Longrightarrow> get_QString s key str = str"
  "s key = None \<Longrightarrow> get_QStringList s key l = l"
  "s key = None \<Longrightarrow> get_QColor s key c = c"
  "s key = None \<Longrightarrow> get_QDate f s key d = d"
  by (simp_all add: get_bool_def get_int_def get_qreal_def get_QString_def
      get_QStringList_def get_QColor_def get_QDate_def)

text \<open>
  The setter of the safe-saving flag writes the key \<^verbatim>\<open>Storage/SafeSavingEnabled\<close>, the
  getter reads the key \<^verbatim>\<open>SafeSavingEnabled\<close>: the getter never sees what the setter
  wrote. The sibling pair for export-on-save uses one key and reads its value back.
\<close>

lemma safeSavingEnabled_unaffected_by_setter:
  "safeSavingEnabled (setSafeSavingEnabled b p) = safeSavingEnabled p"
  by (simp add: safeSavingEnabled_def setSafeSavingEnabled_def get_bool_def setValue_def)

lemma exportOnSave_read_back:
  "exportOnSave (setExportOnSave b p) = b"
  by (simp add: exportOnSave_def setExportOnSave_def get_bool_def setValue_def)

text \<open>
  C1: after \<^verbatim>\<open>setSafeSavingEnabled(b)\<close> the getter \<^verbatim>\<open>safeSavingEnabled()\<close> should return
  \<open>b\<close>. On a first start, after \<^verbatim>\<open>setSafeSavingEnabled(false)\<close>, the getter still
  returns true, while the static flag of \<^verbatim>\<open>SaveFile\<close> is false.
\<close>

theorem safeSavingEnabled_not_read_back:
  "safeSavingEnabled (setSafeSavingEnabled False (freshPreferences [] ())) = True
   \<and> mSafeSavingEnabled (setSafeSavingEnabled False (freshPreferences [] ())) = False"
  by (simp add: safeSavingEnabled_def setSafeSavingEnabled_def freshPreferences_def
      get_bool_def setValue_def)

text \<open>
  C7: every getter whose key is absent from the settings store returns its built-in
  default: \<^verbatim>\<open>showGrid()\<close> is true, \<^verbatim>\<open>gridFine()\<close> is 4, \<^verbatim>\<open>objectLineWidth()\<close> is 2.0,
  \<^verbatim>\<open>runCount()\<close> is 0, and so on for the other getters; none of them fails.
\<close>

theorem getters_default_when_key_absent:
  "(settings p ''Interface/ShowGrid'' = None \<longrightarrow> showGrid p = True)
 \<and> (settings p ''Interface/GridFine'' = None \<longrightarrow> gridFine p = 4)
 \<and> (settings p ''Interface/ObjectLineWidth'' = None \<longrightarrow> objectLineWidth p = 2.0)
 \<and> (settings p ''Install/RunCount'' = None \<longrightarrow> runCount p = 0)
 \<and> (settings p ''Interface/ShowTileObjectOutlines'' = None \<longrightarrow> showTileObjectOutlines p = False)
 \<and> (settings p ''Interface/ShowTileAnimations'' = None \<longrightarrow> showTileAnimations p = True)
 \<and> (settings p ''Interface/ShowTileCollisionShapes'' = None \<longrightarrow> showTileCollisionShapes p = False)
 \<and> (settings p ''Interface/ShowObjectReferences'' = None \<longrightarrow> showObjectReferences p = True)
 \<and> (settings p ''Interface/SnapToGrid'' = None \<longrightarrow> snapToGrid p = False)
 \<and> (settings p ''Interface/SnapToFineGrid'' = None \<longrightarrow> snapToFineGrid p = False)
 \<and> (settings p ''Interface/SnapToPixels'' = None \<longrightarrow> snapToPixels p = False)
 \<and> (settings p ''Interface/GridColor'' = None \<longrightarrow> gridColor p = black)
 \<and> (settings p ''Interface/HighlightCurrentLayer'' = None \<longrightarrow> highlightCurrentLayer p = False)
 \<and> (settings p ''Interface/HighlightHoveredObject'' = None \<longrightarrow> highlightHoveredObject p = True)
 \<and> (settings p ''Interface/ShowTilesetGrid'' = None \<longrightarrow> showTilesetGrid p = True)
 \<and> (settings p ''Interface/ObjectLabelVisibility'' = None \<longrightarrow>
        objectLabelVisibility AllObjectLabels p = AllObjectLabels)
 \<and> (settings p ''Interface/LabelForHoveredObject'' = None \<longrightarrow> labelForHoveredObject p = False)
 \<and> (settings p ''Interface/ApplicationStyle'' = None \<longrightarrow>
        applicationStyle Q_OS_MAC SystemDefaultStyle TiledStyle p
          = (if Q_OS_MAC then SystemDefaultStyle else TiledStyle))
 \<and> (settings p ''Interface/BaseColor'' = None \<longrightarrow> baseColor p = lightGray)
 \<and> (settings p ''Interface/SelectionColor'' = None \<longrightarrow> selectionColor p = QColor_rgb 48 140 198)
 \<and> (settings p ''Storage/LayerDataFormat'' = None \<longrightarrow> layerDataFormat CSV p = CSV)
 \<and> (settings p ''Storage/MapRenderOrder'' = None \<longrightarrow> mapRenderOrder RightDown p = RightDown)
 \<and> (settings p ''SafeSavingEnabled'' = None \<longrightarrow> safeSavingEnabled p = True)
 \<and> (settings p ''Storage/ExportOnSave'' = None \<longrightarrow> exportOnSave p = False)
 \<and> (settings p ''Export/EmbedTilesets'' = None \<longrightarrow> exportOption EmbedTilesets p = False)
 \<and> (settings p ''Export/DetachTemplateInstances'' = None \<longrightarrow>
        exportOption DetachTemplateInstances p = False)
 \<and> (settings p ''Export/ResolveObjectTypesAndProperties'' = None \<longrightarrow>
        exportOption ResolveObjectTypesAndProperties p = False)
 \<and> (settings p ''Export/Minimized'' = None \<longrightarrow> exportOption ExportMinimized p = False)
 \<and> (settings p ''Interface/Language'' = None \<longrightarrow> language p = [])
 \<and> (settings p ''Storage/ReloadTilesets'' = None \<longrightarrow> reloadTilesetsOnChange p = True)
 \<and> (settings p ''Interface/OpenGL'' = None \<longrightarrow> useOpenGL p = False)
 \<and> (settings p ''Install/FirstRun'' = None \<longrightarrow> firstRun fromString p = None)
 \<and> (settings p ''Install/IsPatron'' = None \<longrightarrow> isPatron p = False)
 \<and> (settings p ''Install/DonationDialogTime'' = None \<longrightarrow> donationDialogTime fromString p = None)
 \<and> (settings p ''Project/RecentProjects'' = None \<longrightarrow> recentProjects p = [])
 \<and> (settings p ''Project/LastSession'' = None \<longrightarrow> lastSession defaultFileName p = defaultFileName)
 \<and> (settings p ''Startup/RestorePreviousSession'' = None \<longrightarrow> restoreSessionOnStartup p = True)
 \<and> (settings p ''Install/CheckForUpdates'' = None \<longrightarrow> checkForUpdates p = True)
 \<and> (settings p ''Install/DisplayNews'' = None \<longrightarrow> displayNews p = True)
 \<and> (settings p ''Interface/WheelZoomsByDefault'' = None \<longrightarrow> wheelZoomsByDefault p = False)
 \<and> (settings p ''Storage/ObjectTypesFile'' = None \<longrightarrow>
        objectTypesFile dataLocation p = dataLocation @ ''/objecttypes.xml'')"
  by (simp add: get_absent showGrid_def gridFine_def objectLineWidth_def runCount_def
      showTileObjectOutlines_def showTileAnimations_def showTileCollisionShapes_def
      showObjectReferences_def snapToGrid_def snapToFineGrid_def snapToPixels_def gridColor_def
      highlightCurrentLayer_def highlightHoveredObject_def showTilesetGrid_def
      objectLabelVisibility_def applicationStyle_def layerDataFormat_def mapRenderOrder_def
      labelForHoveredObject_def baseColor_def selectionColor_def safeSavingEnabled_def
      exportOnSave_def language_def reloadTilesetsOnChange_def useOpenGL_def firstRun_def
      isPatron_def donationDialogTime_def recentProjects_def lastSession_def
      restoreSessionOnStartup_def checkForUpdates_def displayNews_def wheelZoomsByDefault_def
      objectTypesFile_def)

theorem getters_default_witness:
  "settings (freshPreferences [] ()) ''Interface/ShowGrid'' = None
 \<and> showGrid (freshPreferences [] ()) = True
 \<and> gridFine (freshPreferences [] ()) = 4
 \<and> objectLineWidth (freshPreferences [] ()) = 2.0
 \<and> runCount (freshPreferences [] ()) = 0
 \<and> gridColor (freshPreferences [] ()) = black
 \<and> applicationStyle False 0 2 (freshPreferences [] ()) = 2
 \<and> exportOption ExportMinimized (freshPreferences [] ()) = False
 \<and> recentProjects (freshPreferences [] ()) = []
 \<and> lastSession ''default.tiled-session'' (freshPreferences [] ()) = ''default.tiled-session''
 \<and> objectTypesFile ''/data'' (freshPreferences [] ()) = ''/data/objecttypes.xml''"
  using getters_default_when_key_absent
    [of "freshPreferences [] ()" _ False 0 2 _ _ "\<lambda>s. None" "''default.tiled-session''" "''/data''"]
  by (simp add: freshPreferences_def)

section \<open>Properties of the recent projects\<close>

lemma removeLastWhileLonger_take:
  "removeLastWhileLonger M files = take M files"
proof (induction M files rule: removeLastWhileLonger.induct)
  case (1 M files)
  show ?case
  proof (cases "length files > M")
    case True
    then have "take M (butlast files) = take M files"
      by (simp add: butlast_conv_take)
    with 1 True show ?thesis by (simp add: removeLastWhileLonger.simps [of M files])
  next
    case False
    then show ?thesis by (simp add: removeLastWhileLonger.simps [of M files])
  qed
qed

lemma count_list_removeAll: "count_list (removeAll x xs) x = 0"
  by (induction xs) auto

lemma count_list_take_le: "count_list (take n xs) x \<le> count_list xs x"
  by (induction xs arbitrary: n) (auto simp: take_Cons split: nat.splits)

lemma addToRecentFileList_nonempty:
  assumes "cleanPath (absolutePath fileName) \<noteq> []" and "0 < M"
  shows "addToRecentFileList cleanPath absolutePath M fileName files \<noteq> []"
    and "hd (addToRecentFileList cleanPath absolutePath M fileName files)
           = cleanPath (absolutePath fileName)"
    and "count_list (addToRecentFileList cleanPath absolutePath M fileName files)
           (cleanPath (absolutePath fileName)) = 1"
    and "length (addToRecentFileList cleanPath absolutePath M fileName files) \<le> M"
proof -
  let ?a = "cleanPath (absolutePath fileName)"
  obtain m where m: "M = Suc m" using assms(2) by (cases M) auto
  have eq: "addToRecentFileList cleanPath absolutePath M fileName files
              = ?a # take m (removeAll ?a files)"
    using assms(1) by (simp add: addToRecentFileList_def removeLastWhileLonger_take m Let_def)
  show "addToRecentFileList cleanPath absolutePath M fileName files \<noteq> []" by (simp add: eq)
  show "hd (addToRecentFileList cleanPath absolutePath M fileName files) = ?a" by (simp add: eq)
  have "count_list (take m (removeAll ?a files)) ?a = 0"
    using count_list_take_le [of m "removeAll ?a files" ?a] by (simp add: count_list_removeAll)
  then show "count_list (addToRecentFileList cleanPath absolutePath M fileName files) ?a = 1"
    by (simp add: eq)
  show "length (addToRecentFileList cleanPath absolutePath M fileName files) \<le> M"
    unfolding eq by (simp add: m)
qed

lemma recentProjects_addRecentProject:
  "recentProjects (addRecentProject cleanPath absolutePath M fileName p)
     = addToRecentFileList cleanPath absolutePath M fileName (recentProjects p)"
  by (simp add: recentProjects_def addRecentProject_def setLastPath_def Let_def
      get_QStringList_def setValue_def)

text \<open>
  C8: after \<^verbatim>\<open>addRecentProject(fileName)\<close>, when the cleaned absolute path of the file
  name is not empty (and \<^verbatim>\<open>MaxRecentFiles\<close> is at least one), the list stored under
  \<^verbatim>\<open>Project/RecentProjects\<close> starts with that path, holds it exactly once and has at most
  \<^verbatim>\<open>MaxRecentFiles\<close> entries; when the cleaned path is empty the list is as before.
\<close>

theorem addRecentProject_recent_list:
  "(cleanPath (absolutePath fileName) \<noteq> [] \<and> 0 < MaxRecentFiles \<longrightarrow>
      recentProjects (addRecentProject cleanPath absolutePath MaxRecentFiles fileName p) \<noteq> []
    \<and> hd (recentProjects (addRecentProject cleanPath absolutePath MaxRecentFiles fileName p))
        = cleanPath (absolutePath fileName)
    \<and> count_list (recentProjects (addRecentProject cleanPath absolutePath MaxRecentFiles fileName p))
        (cleanPath (absolutePath fileName)) = 1
    \<and> length (recentProjects (addRecentProject cleanPath absolutePath MaxRecentFiles fileName p))
        \<le> MaxRecentFiles)
 \<and> (cleanPath (absolutePath fileName) = [] \<longrightarrow>
      recentProjects (addRecentProject cleanPath absolutePath MaxRecentFiles fileName p)
        = recentProjects p)"
  using addToRecentFileList_nonempty
    [of cleanPath absolutePath fileName MaxRecentFiles "recentProjects p"]
  by (auto simp add: recentProjects_addRecentProject addToRecentFileList_def)

theorem addRecentProject_witness:
  "recentProjects (addRecentProject id id 2 ''/b''
      ((freshPreferences [] ())\<lparr>settings :=
          [''Project/RecentProjects'' \<mapsto> VStringList [''/a'', ''/b'', ''/c'']]\<rparr>))
     = [''/b'', ''/a'']
   \<and> recentProjects (addRecentProject id id 2 []
      ((freshPreferences [] ())\<lparr>settings :=
          [''Project/RecentProjects'' \<mapsto> VStringList [''/a'', ''/b'', ''/c'']]\<rparr>))
     = [''/a'', ''/b'', ''/c'']"
  using addRecentProject_recent_list [of id id "''/b''" 2
      "(freshPreferences [] ())\<lparr>settings :=
          [''Project/RecentProjects'' \<mapsto> VStringList [''/a'', ''/b'', ''/c'']]\<rparr>"]
    addRecentProject_recent_list [of id id "[]" 2
      "(freshPreferences [] ())\<lparr>settings :=
          [''Project/RecentProjects'' \<mapsto> VStringList [''/a'', ''/b'', ''/c'']]\<rparr>"]
  by (simp add: recentProjects_def addRecentProject_def setLastPath_def Let_def
      get_QStringList_def setValue_def addToRecentFileList_def freshPreferences_def
      removeLastWhileLonger.simps)

section \<open>Properties of the donation dialog\<close>

text \<open>
  C9: \<^verbatim>\<open>shouldShowDonationDialog()\<close> returns false whenever \<^verbatim>\<open>isPatron()\<close> is true, or
  \<^verbatim>\<open>runCount()\<close> is below 7, or the stored donation dialog date is invalid; otherwise it
  returns true exactly when the stored date is on or before the current date. The
  current date is a valid date.
\<close>

theorem shouldShowDonationDialog_cases:
  assumes "currentDate = Some today"
  shows "(isPatron p \<or> runCount p < 7 \<or> \<not> isValid (donationDialogTime fromString p)
            \<longrightarrow> shouldShowDonationDialog fromString currentDate p = False)
       \<and> (\<not> isPatron p \<and> \<not> runCount p < 7 \<and> donationDialogTime fromString p = Some dialogDay
            \<longrightarrow> shouldShowDonationDialog fromString currentDate p = (dialogDay \<le> today))"
  using assms by (auto simp add: shouldShowDonationDialog_def Let_def isValid_def)

theorem shouldShowDonationDialog_witness:
  "shouldShowDonationDialog (\<lambda>s. if s = ''2020-01-01'' then Some 2458850 else None) (Some 2458850)
     ((freshPreferences [] ())\<lparr>settings :=
        [''Install/RunCount'' \<mapsto> VInt 7,
         ''Install/DonationDialogTime'' \<mapsto> VString ''2020-01-01'']\<rparr>) = True
   \<and> shouldShowDonationDialog (\<lambda>s. if s = ''2020-01-01'' then Some 2458850 else None) (Some 2458849)
     ((freshPreferences [] ())\<lparr>settings :=
        [''Install/RunCount'' \<mapsto> VInt 7,
         ''Install/DonationDialogTime'' \<mapsto> VString ''2020-01-01'']\<rparr>) = False
   \<and> shouldShowDonationDialog (\<lambda>s. if s = ''2020-01-01'' then Some 2458850 else None) (Some 2458850)
     ((freshPreferences [] ())\<lparr>settings :=
        [''Install/RunCount'' \<mapsto> VInt 6,
         ''Install/DonationDialogTime'' \<mapsto> VString ''2020-01-01'']\<rparr>) = False"
  using shouldShowDonationDialog_cases [of "Some 2458850" 2458850
      "(freshPreferences [] ())\<lparr>settings :=
        [''Install/RunCount'' \<mapsto> VInt 7,
         ''Install/DonationDialogTime'' \<mapsto> VString ''2020-01-01'']\<rparr>"
      "\<lambda>s. if s = ''2020-01-01'' then Some 2458850 else None" 2458850]
    shouldShowDonationDialog_cases [of "Some 2458849" 2458849
      "(freshPreferences [] ())\<lparr>settings :=
        [''Install/RunCount'' \<mapsto> VInt 7,
         ''Install/DonationDialogTime'' \<mapsto> VString ''2020-01-01'']\<rparr>"
      "\<lambda>s. if s = ''2020-01-01'' then Some 2458850 else None" 2458850]
    shouldShowDonationDialog_cases [of "Some 2458850" 2458850
      "(freshPreferences [] ())\<lparr>settings :=
        [''Install/RunCount'' \<mapsto> VInt 6,
         ''Install/DonationDialogTime'' \<mapsto> VString ''2020-01-01'']\<rparr>"
      "\<lambda>s. if s = ''2020-01-01'' then Some 2458850 else None" 2458850]
  by (simp add: freshPreferences_def isPatron_def runCount_def donationDialogTime_def
      get_bool_def get_int_def get_QDate_def isValid_def)

section \<open>Properties of the object types file\<close>

lemma objectTypesFile_nonempty: "objectTypesFile dataLocation p \<noteq> []"
  by (simp add: objectTypesFile_def Let_def)

text \<open>
  C10: \<^verbatim>\<open>setObjectTypesFile(fileName)\<close> changes nothing when the file name is the current
  \<^verbatim>\<open>objectTypesFile()\<close>: the settings, the watcher and the rest of the state stay as they
  are. When the file name differs, the previous path (which is never empty) is removed
  from the watcher, the new name is written under \<^verbatim>\<open>Storage/ObjectTypesFile\<close> and the new
  path is added to the watcher; nothing else changes.
\<close>

theorem setObjectTypesFile_frame:
  "(fileName = objectTypesFile dataLocation p \<longrightarrow>
      setObjectTypesFile addPath removePath dataLocation fileName p = p)
 \<and> (fileName \<noteq> objectTypesFile dataLocation p \<longrightarrow>
      setObjectTypesFile addPath removePath dataLocation fileName p
        = p\<lparr>settings := (settings p)(''Storage/ObjectTypesFile'' \<mapsto> VString fileName),
             mWatcher := addPath fileName
                           (removePath (objectTypesFile dataLocation p) (mWatcher p))\<rparr>)"
  by (auto simp add: setObjectTypesFile_def Let_def objectTypesFile_nonempty setValue_def)

theorem setObjectTypesFile_witness:
  "setObjectTypesFile (\<lambda>f w. f # w) removeAll ''/data'' ''/data/objecttypes.xml''
      (freshPreferences [] [''/data/objecttypes.xml''])
     = freshPreferences [] [''/data/objecttypes.xml'']
 \<and> mWatcher (setObjectTypesFile (\<lambda>f w. f # w) removeAll ''/data'' ''/x.json''
      (freshPreferences [] [''/data/objecttypes.xml''])) = [''/x.json'']
 \<and> settings (setObjectTypesFile (\<lambda>f w. f # w) removeAll ''/data'' ''/x.json''
      (freshPreferences [] [''/data/objecttypes.xml''])) ''Storage/ObjectTypesFile''
     = Some (VString ''/x.json'')"
  using setObjectTypesFile_frame [of "''/data/objecttypes.xml''" "''/data''"
          "freshPreferences [] [''/data/objecttypes.xml'']" "\<lambda>f w. f # w" removeAll]
    setObjectTypesFile_frame [of "''/x.json''" "''/data''"
          "freshPreferences [] [''/data/objecttypes.xml'']" "\<lambda>f w. f # w" removeAll]
  by (simp add: freshPreferences_def objectTypesFile_def get_QString_def)

text \<open>
  C5: when the watcher reports a change of the object types file, nothing changes if
  the file's last-modified time equals the recorded time of the application's own last
  save (in particular right after \<^verbatim>\<open>setObjectTypesFileLastSaved\<close> recorded that time);
  otherwise the file is read again: a successful read replaces the whole list of object
  types by the list read and emits \<^verbatim>\<open>objectTypesChanged\<close>, a failed read changes
  nothing.
\<close>

theorem objectTypesFileChangedOnDisk_cases:
  "(lastModified (objectTypesFile dataLocation p) = mObjectTypesFileLastSaved p \<longrightarrow>
      objectTypesFileChangedOnDisk dataLocation lastModified readObjectTypes p = p)
 \<and> (lastModified (objectTypesFile dataLocation p) \<noteq> mObjectTypesFileLastSaved p
      \<and> readObjectTypes (objectTypesFile dataLocation p) [] = (True, objectTypes) \<longrightarrow>
      objectTypesFileChangedOnDisk dataLocation lastModified readObjectTypes p
        = p\<lparr>mObjectTypes := objectTypes, emitted := emitted p @ [objectTypesChanged]\<rparr>)
 \<and> (lastModified (objectTypesFile dataLocation p) \<noteq> mObjectTypesFileLastSaved p
      \<and> readObjectTypes (objectTypesFile dataLocation p) [] = (False, objectTypes) \<longrightarrow>
      objectTypesFileChangedOnDisk dataLocation lastModified readObjectTypes p = p)
 \<and> objectTypesFileChangedOnDisk dataLocation lastModified readObjectTypes
      (setObjectTypesFileLastSaved (lastModified (objectTypesFile dataLocation p)) p)
     = setObjectTypesFileLastSaved (lastModified (objectTypesFile dataLocation p)) p"
  by (simp add: objectTypesFileChangedOnDisk_def Let_def setObjectTypes_def
      setObjectTypesFileLastSaved_def objectTypesFile_def)

theorem objectTypesFileChangedOnDisk_witness:
  "objectTypesFileChangedOnDisk ''/data'' (\<lambda>f. Some 5)
      (\<lambda>f l. (True, [ObjectType ''door'' (QColor_name ''#00ff00'')]))
      ((freshPreferences [] ())\<lparr>mObjectTypes := [ObjectType ''coin'' QColor_invalid]\<rparr>)
     = (freshPreferences [] ())\<lparr>mObjectTypes := [ObjectType ''door'' (QColor_name ''#00ff00'')],
          emitted := [objectTypesChanged]\<rparr>
 \<and> mObjectTypes (objectTypesFileChangedOnDisk ''/data'' (\<lambda>f. Some 5)
      (\<lambda>f l. (True, [ObjectType ''door'' (QColor_name ''#00ff00'')]))
      ((freshPreferences [] ())\<lparr>mObjectTypes := [ObjectType ''coin'' QColor_invalid],
          mObjectTypesFileLastSaved := Some 5\<rparr>))
     = [ObjectType ''coin'' QColor_invalid]
 \<and> mObjectTypes (objectTypesFileChangedOnDisk ''/data'' (\<lambda>f. Some 5)
      (\<lambda>f l. (False, [ObjectType ''door'' (QColor_name ''#00ff00'')]))
      ((freshPreferences [] ())\<lparr>mObjectTypes := [ObjectType ''coin'' QColor_invalid]\<rparr>))
     = [ObjectType ''coin'' QColor_invalid]"
  using objectTypesFileChangedOnDisk_cases
      [where lastModified = "\<lambda>f. Some 5" and dataLocation = "''/data''"
         and readObjectTypes = "\<lambda>f l. (True, [ObjectType ''door'' (QColor_name ''#00ff00'')])"
         and objectTypes = "[ObjectType ''door'' (QColor_name ''#00ff00'')]"
         and p = "(freshPreferences [] ())\<lparr>mObjectTypes := [ObjectType ''coin'' QColor_invalid]\<rparr>"]
    objectTypesFileChangedOnDisk_cases
      [where lastModified = "\<lambda>f. Some 5" and dataLocation = "''/data''"
         and readObjectTypes = "\<lambda>f l. (True, [ObjectType ''door'' (QColor_name ''#00ff00'')])"
         and objectTypes = "[ObjectType ''door'' (QColor_name ''#00ff00'')]"
         and p = "(freshPreferences [] ())\<lparr>mObjectTypes := [ObjectType ''coin'' QColor_invalid],
                    mObjectTypesFileLastSaved := Some 5\<rparr>"]
    objectTypesFileChangedOnDisk_cases
      [where lastModified = "\<lambda>f. Some 5" and dataLocation = "''/data''"
         and readObjectTypes = "\<lambda>f l. (False, [ObjectType ''door'' (QColor_name ''#00ff00'')])"
         and objectTypes = "[ObjectType ''door'' (QColor_name ''#00ff00'')]"
         and p = "(freshPreferences [] ())\<lparr>mObjectTypes := [ObjectType ''coin'' QColor_invalid]\<rparr>"]
  by (simp add: freshPreferences_def)

section \<open>Properties of the plugin lists\<close>

lemma collectPluginLists_eq:
  "collectPluginLists states (disabledPlugins, enabledPlugins)
     = (disabledPlugins @ map fst (filter (\<lambda>(fileName, state). state = PluginDisabled) states),
        enabledPlugins @ map fst (filter (\<lambda>(fileName, state). state = PluginEnabled) states))"
proof (induction states arbitrary: disabledPlugins enabledPlugins)
  case Nil
  show ?case by simp
next
  case (Cons entry states)
  obtain fileName state where entry: "entry = (fileName, state)" by (cases entry)
  show ?case
    by (cases state) (simp_all add: entry Cons.IH)
qed

lemma stored_plugin_lists:
  "get_QStringList (settings (setPluginEnabled setPluginState fileName enabled p)) ''Plugins/Enabled'' []
     = map fst (filter (\<lambda>(f, state). state = PluginEnabled)
         (mPluginStates (setPluginEnabled setPluginState fileName enabled p)))"
  "get_QStringList (settings (setPluginEnabled setPluginState fileName enabled p)) ''Plugins/Disabled'' []
     = map fst (filter (\<lambda>(f, state). state = PluginDisabled)
         (mPluginStates (setPluginEnabled setPluginState fileName enabled p)))"
  by (simp_all add: setPluginEnabled_def Let_def collectPluginLists_eq get_QStringList_def
      setValue_def)

lemma set_keys_with_state:
  assumes "distinct (map fst states)"
  shows "set (map fst (filter (\<lambda>(f, state). state = x) states)) = {f. map_of states f = Some x}"
  using assms by (force simp add: image_iff)

lemma distinct_keys_with_state:
  assumes "distinct (map fst states)"
  shows "distinct (map fst (filter (\<lambda>(f, state). state = x) states))"
  using assms by (simp add: distinct_map_filter)

text \<open>
  C6: after \<^verbatim>\<open>setPluginEnabled(fileName, enabled)\<close> the list stored under
  \<^verbatim>\<open>Plugins/Enabled\<close> holds exactly the file names whose state in the plugin manager is
  \<^verbatim>\<open>PluginEnabled\<close>, the list under \<^verbatim>\<open>Plugins/Disabled\<close> exactly those whose state is
  \<^verbatim>\<open>PluginDisabled\<close>, each name once, so that a plugin in state \<^verbatim>\<open>PluginDefault\<close> or
  \<^verbatim>\<open>PluginStatic\<close> is in neither; both lists are built from the plugin states alone,
  whatever the settings held before. The plugin states are a \<^verbatim>\<open>QMap\<close>: no key occurs
  twice.
\<close>

theorem setPluginEnabled_lists:
  assumes "distinct (map fst (mPluginStates (setPluginEnabled setPluginState fileName enabled p)))"
  shows "set (get_QStringList (settings (setPluginEnabled setPluginState fileName enabled p))
               ''Plugins/Enabled'' [])
           = {f. map_of (mPluginStates (setPluginEnabled setPluginState fileName enabled p)) f
                   = Some PluginEnabled}
       \<and> set (get_QStringList (settings (setPluginEnabled setPluginState fileName enabled p))
               ''Plugins/Disabled'' [])
           = {f. map_of (mPluginStates (setPluginEnabled setPluginState fileName enabled p)) f
                   = Some PluginDisabled}
       \<and> distinct (get_QStringList (settings (setPluginEnabled setPluginState fileName enabled p))
               ''Plugins/Enabled'' [])
       \<and> distinct (get_QStringList (settings (setPluginEnabled setPluginState fileName enabled p))
               ''Plugins/Disabled'' [])
       \<and> settings (setPluginEnabled setPluginState fileName enabled (p\<lparr>settings := s\<rparr>))
             ''Plugins/Enabled''
           = settings (setPluginEnabled setPluginState fileName enabled p) ''Plugins/Enabled''
       \<and> settings (setPluginEnabled setPluginState fileName enabled (p\<lparr>settings := s\<rparr>))
             ''Plugins/Disabled''
           = settings (setPluginEnabled setPluginState fileName enabled p) ''Plugins/Disabled''"
proof -
  let ?p' = "setPluginEnabled setPluginState fileName enabled p"
  have 1: "set (get_QStringList (settings ?p') ''Plugins/Enabled'' [])
             = {f. map_of (mPluginStates ?p') f = Some PluginEnabled}"
    by (simp only: stored_plugin_lists set_keys_with_state [OF assms])
  have 2: "set (get_QStringList (settings ?p') ''Plugins/Disabled'' [])
             = {f. map_of (mPluginStates ?p') f = Some PluginDisabled}"
    by (simp only: stored_plugin_lists set_keys_with_state [OF assms])
  have 3: "distinct (get_QStringList (settings ?p') ''Plugins/Enabled'' [])"
    by (simp only: stored_plugin_lists distinct_keys_with_state [OF assms])
  have 4: "distinct (get_QStringList (settings ?p') ''Plugins/Disabled'' [])"
    by (simp only: stored_plugin_lists distinct_keys_with_state [OF assms])
  have 5: "settings (setPluginEnabled setPluginState fileName enabled (p\<lparr>settings := s\<rparr>))
             ''Plugins/Enabled'' = settings ?p' ''Plugins/Enabled''"
    by (simp add: setPluginEnabled_def Let_def setValue_def split: prod.splits)
  have 6: "settings (setPluginEnabled setPluginState fileName enabled (p\<lparr>settings := s\<rparr>))
             ''Plugins/Disabled'' = settings ?p' ''Plugins/Disabled''"
    by (simp add: setPluginEnabled_def Let_def setValue_def split: prod.splits)
  from 1 2 3 4 5 6 show ?thesis by blast
qed

theorem setPluginEnabled_witness:
  "get_QStringList (settings (setPluginEnabled AList.update ''c.so'' False
      ((freshPreferences [] ())\<lparr>mPluginStates :=
          [(''a.so'', PluginEnabled), (''b.so'', PluginStatic), (''c.so'', PluginEnabled),
           (''d.so'', PluginDisabled)],
         settings := [''Plugins/Enabled'' \<mapsto> VStringList [''z.so'']]\<rparr>))) ''Plugins/Enabled'' []
     = [''a.so'']
 \<and> get_QStringList (settings (setPluginEnabled AList.update ''c.so'' False
      ((freshPreferences [] ())\<lparr>mPluginStates :=
          [(''a.so'', PluginEnabled), (''b.so'', PluginStatic), (''c.so'', PluginEnabled),
           (''d.so'', PluginDisabled)],
         settings := [''Plugins/Enabled'' \<mapsto> VStringList [''z.so'']]\<rparr>))) ''Plugins/Disabled'' []
     = [''c.so'', ''d.so'']
 \<and> distinct (map fst (mPluginStates (setPluginEnabled AList.update ''c.so'' False
      ((freshPreferences [] ())\<lparr>mPluginStates :=
          [(''a.so'', PluginEnabled), (''b.so'', PluginStatic), (''c.so'', PluginEnabled),
           (''d.so'', PluginDisabled)],
         settings := [''Plugins/Enabled'' \<mapsto> VStringList [''z.so'']]\<rparr>))))"
  using setPluginEnabled_lists [of AList.update "''c.so''" False
      "(freshPreferences [] ())\<lparr>mPluginStates :=
          [(''a.so'', PluginEnabled), (''b.so'', PluginStatic), (''c.so'', PluginEnabled),
           (''d.so'', PluginDisabled)],
         settings := [''Plugins/Enabled'' \<mapsto> VStringList [''z.so'']]\<rparr>" Map.empty]
  by (simp add: setPluginEnabled_def Let_def get_QStringList_def setValue_def
      freshPreferences_def)

section \<open>Properties of the constructor\<close>






lemma settings_remove_twice:
  assumes "s' = settings_remove key2 (settings_remove key1 s)"
  shows "\<not> settings_contains s' key1" and "\<not> settings_contains s' key2"
    and "prefix (key1 @ ''/'') k \<or> prefix (key2 @ ''/'') k \<Longrightarrow> \<not> settings_contains s' k"
    and "k \<noteq> key1 \<Longrightarrow> k \<noteq> key2 \<Longrightarrow> \<not> prefix (key1 @ ''/'') k
           \<Longrightarrow> \<not> prefix (key2 @ ''/'') k \<Longrightarrow> s' k = s k"
  unfolding assms settings_contains_def settings_remove_def by auto

lemma migrate_steps_settings:
  "settings (migrateRecentFiles p) = settings p"
  "settings (migrateLegacyMapStates setFileState toSettingsValue p) = settings p"
  by (simp_all add: migrateRecentFiles_def migrateLegacyMapStates_def Let_def)

lemma saveAndRemoveLegacy_settings:
  "settings (saveAndRemoveLegacy save p)
     = (if save (mSession (saveAndRemoveLegacy save p))
        then settings_remove ''MapEditor/MapStates'' (settings_remove ''recentFiles'' (settings p))
        else settings p)"
  by (simp add: saveAndRemoveLegacy_def Let_def)

lemma migrate_settings:
  assumes "sessionFileName (mSession p) = defaultFileName"
  shows "settings (migrateRecentFilesAndMapStates defaultFileName save setFileState toSettingsValue p)
     = (if save (mSession (migrateRecentFilesAndMapStates defaultFileName save setFileState
                              toSettingsValue p))
        then settings_remove ''MapEditor/MapStates'' (settings_remove ''recentFiles'' (settings p))
        else settings p)"
proof -
  have m: "migrateRecentFilesAndMapStates defaultFileName save setFileState toSettingsValue p
             = saveAndRemoveLegacy save
                 (migrateLegacyMapStates setFileState toSettingsValue (migrateRecentFiles p))"
    using assms by (simp add: migrateRecentFilesAndMapStates_def)
  show ?thesis
    unfolding m
    by (simp only: saveAndRemoveLegacy_settings [of save
          "migrateLegacyMapStates setFileState toSettingsValue (migrateRecentFiles p)"]
        migrate_steps_settings)
qed

text \<open>
  C3: in the migration of the recent files and the map states (the session being the
  default one), the legacy keys \<^verbatim>\<open>recentFiles\<close> and \<^verbatim>\<open>MapEditor/MapStates\<close> are removed,
  with the settings below them and nothing else, when the saving of the session
  succeeds; when it fails the settings store is left as it was, so that both keys are
  present exactly if they were and the migration can run again.
\<close>

theorem migration_removes_legacy_keys_iff_saved:
  assumes "sessionFileName (mSession p) = defaultFileName"
    and "p' = migrateRecentFilesAndMapStates defaultFileName save setFileState toSettingsValue p"
  shows "(save (mSession p') \<longrightarrow>
            \<not> settings_contains (settings p') ''recentFiles''
          \<and> \<not> settings_contains (settings p') ''MapEditor/MapStates''
          \<and> (\<forall>k. prefix (''recentFiles'' @ ''/'') k \<or> prefix (''MapEditor/MapStates'' @ ''/'') k
                 \<longrightarrow> \<not> settings_contains (settings p') k)
          \<and> (\<forall>k. k \<noteq> ''recentFiles'' \<and> k \<noteq> ''MapEditor/MapStates''
                 \<and> \<not> prefix (''recentFiles'' @ ''/'') k
                 \<and> \<not> prefix (''MapEditor/MapStates'' @ ''/'') k
                 \<longrightarrow> settings p' k = settings p k))
       \<and> (\<not> save (mSession p') \<longrightarrow>
            settings p' = settings p
          \<and> settings_contains (settings p') ''recentFiles''
              = settings_contains (settings p) ''recentFiles''
          \<and> settings_contains (settings p') ''MapEditor/MapStates''
              = settings_contains (settings p) ''MapEditor/MapStates'')"
proof -
  have s: "settings p' = (if save (mSession p')
        then settings_remove ''MapEditor/MapStates'' (settings_remove ''recentFiles'' (settings p))
        else settings p)"
    unfolding assms(2) by (rule migrate_settings [OF assms(1)])
  show ?thesis
  proof (cases "save (mSession p')")
    case True
    then have r: "settings p'
        = settings_remove ''MapEditor/MapStates'' (settings_remove ''recentFiles'' (settings p))"
      using s by simp
    from settings_remove_twice [OF r] True show ?thesis
      by blast
  next
    case False
    then have "settings p' = settings p" using s by simp
    with False show ?thesis by simp
  qed
qed


theorem migration_witness:
  "settings (migrateRecentFilesAndMapStates [] (\<lambda>s. True) (\<lambda>f m s. s) (\<lambda>pt. Invalid)
      ((freshPreferences [] ())\<lparr>settings :=
          [''recentFiles'' \<mapsto> Invalid, ''recentFiles/fileNames'' \<mapsto> VStringList [''a.tmx''],
           ''Interface/ShowGrid'' \<mapsto> VBool False]\<rparr>)) ''recentFiles/fileNames'' = None
 \<and> settings (migrateRecentFilesAndMapStates [] (\<lambda>s. True) (\<lambda>f m s. s) (\<lambda>pt. Invalid)
      ((freshPreferences [] ())\<lparr>settings :=
          [''recentFiles'' \<mapsto> Invalid, ''recentFiles/fileNames'' \<mapsto> VStringList [''a.tmx''],
           ''Interface/ShowGrid'' \<mapsto> VBool False]\<rparr>)) ''Interface/ShowGrid'' = Some (VBool False)
 \<and> settings (migrateRecentFilesAndMapStates [] (\<lambda>s. False) (\<lambda>f m s. s) (\<lambda>pt. Invalid)
      ((freshPreferences [] ())\<lparr>settings :=
          [''recentFiles'' \<mapsto> Invalid, ''recentFiles/fileNames'' \<mapsto> VStringList [''a.tmx''],
           ''Interface/ShowGrid'' \<mapsto> VBool False]\<rparr>)) ''recentFiles/fileNames''
     = Some (VStringList [''a.tmx''])"
  using migration_removes_legacy_keys_iff_saved [of
      "(freshPreferences [] ())\<lparr>settings :=
          [''recentFiles'' \<mapsto> Invalid, ''recentFiles/fileNames'' \<mapsto> VStringList [''a.tmx''],
           ''Interface/ShowGrid'' \<mapsto> VBool False]\<rparr>" "[]" _ "\<lambda>s. True" "\<lambda>f m s. s" "\<lambda>pt. Invalid",
      OF _ refl]
    migration_removes_legacy_keys_iff_saved [of
      "(freshPreferences [] ())\<lparr>settings :=
          [''recentFiles'' \<mapsto> Invalid, ''recentFiles/fileNames'' \<mapsto> VStringList [''a.tmx''],
           ''Interface/ShowGrid'' \<mapsto> VBool False]\<rparr>" "[]" _ "\<lambda>s. False" "\<lambda>f m s. s" "\<lambda>pt. Invalid",
      OF _ refl]
  by (simp add: freshPreferences_def freshSession_def settings_contains_def)

section \<open>Properties of the delayed saving of the session\<close>

lemma saveSession_pending:
  "isActive (mSaveSessionTimer p) \<Longrightarrow> saveSession now p = p"
  by (simp add: saveSession_def)

lemma step_no_timer_event:
  assumes "e \<noteq> TimerEvent"
  shows "sessionSaves (prefs (step e w)) = sessionSaves (prefs w)"
    and "writeTimes (step e w) = writeTimes w"
    and "isActive (mSaveSessionTimer (prefs w)) \<Longrightarrow>
           mSaveSessionTimer (prefs (step e w)) = mSaveSessionTimer (prefs w)"
  using assms by (cases e; simp add: saveSession_def)+

lemma run_no_timer_event:
  assumes "TimerEvent \<notin> set es"
  shows "sessionSaves (prefs (run es w)) = sessionSaves (prefs w)
       \<and> writeTimes (run es w) = writeTimes w
       \<and> (isActive (mSaveSessionTimer (prefs w)) \<longrightarrow>
            mSaveSessionTimer (prefs (run es w)) = mSaveSessionTimer (prefs w))"
  using assms
proof (induction es arbitrary: w)
  case Nil
  show ?case by simp
next
  case (Cons e es)
  then have e: "e \<noteq> TimerEvent" and es: "TimerEvent \<notin> set es" by auto
  from Cons.IH [OF es, of "step e w"] step_no_timer_event [OF e, of w]
  show ?case by auto
qed

lemma step_timer_event_writes:
  "sessionSaves (prefs (step TimerEvent w))
     = (if expired (clock w) (mSaveSessionTimer (prefs w))
        then mSession (prefs w) # sessionSaves (prefs w) else sessionSaves (prefs w))"
  "writeTimes (step TimerEvent w)
     = (if expired (clock w) (mSaveSessionTimer (prefs w))
        then clock w # writeTimes w else writeTimes w)"
  "\<not> expired (clock w) (mSaveSessionTimer (prefs w)) \<Longrightarrow> step TimerEvent w = w"
  "expired (clock w) (mSaveSessionTimer (prefs w)) \<Longrightarrow>
     \<not> isActive (mSaveSessionTimer (prefs (step TimerEvent w)))"
  by (simp_all add: Let_def saveSessionNow_def isActive_def stop_def)

lemma timer_inv_step:
  assumes "timer_inv w"
  shows "timer_inv (step e w)"
proof (cases e)
  case SaveSessionCalled
  with assms show ?thesis
    by (auto simp add: timer_inv_def saveSession_def isActive_def start_def)
next
  case (TimePasses d)
  with assms show ?thesis
    by (auto simp add: timer_inv_def)
next
  case TimerEvent
  show ?thesis
  proof (cases "expired (clock w) (mSaveSessionTimer (prefs w))")
    case False
    then have "step e w = w" unfolding TimerEvent by (rule step_timer_event_writes(3))
    with assms show ?thesis by simp
  next
    case True
    then obtain ex where ex: "expiry (mSaveSessionTimer (prefs w)) = Some ex" "ex \<le> clock w"
      by (auto simp add: expired_def split: option.splits)
    from assms ex have old: "\<forall>t \<in> set (writeTimes w). t + 1000 \<le> clock w"
      by (fastforce simp add: timer_inv_def)
    have wt: "writeTimes (step e w) = clock w # writeTimes w"
      unfolding TimerEvent by (simp only: step_timer_event_writes(2) True if_True)
    have ck: "clock (step e w) = clock w"
      using True TimerEvent by (simp add: Let_def)
    have inact: "expiry (mSaveSessionTimer (prefs (step e w))) = None"
      using step_timer_event_writes(4) [OF True] unfolding TimerEvent isActive_def by blast
    have iv: "interval (mSaveSessionTimer (prefs (step e w))) = 1000"
      using assms True TimerEvent
      by (simp add: Let_def saveSessionNow_def stop_def rearm_def start_def timer_inv_def)
    from assms old show ?thesis
      by (auto simp add: timer_inv_def wt ck inact iv spaced_def)
  qed
qed

lemma timer_inv_run: "timer_inv w \<Longrightarrow> timer_inv (run es w)"
  by (induction es arbitrary: w) (simp_all add: timer_inv_step)

lemma timer_inv_startWorld: "timer_inv (startWorld p)"
  by (simp add: timer_inv_def startWorld_def setupSaveSessionTimer_def spaced_def)

lemma clock_step_mono: "clock w \<le> clock (step e w)"
  by (cases e) (simp_all add: Let_def)

lemma clock_run_mono: "clock w \<le> clock (run es w)"
proof (induction es arbitrary: w)
  case Nil
  show ?case by simp
next
  case (Cons e es)
  from clock_step_mono [of w e] Cons.IH [of "step e w"] show ?case by simp
qed

lemma step_before_expiry:
  assumes "expiry (mSaveSessionTimer (prefs w)) = Some ex" and "clock w < ex"
  shows "mSaveSessionTimer (prefs (step e w)) = mSaveSessionTimer (prefs w)"
    and "sessionSaves (prefs (step e w)) = sessionSaves (prefs w)"
  using assms by (cases e; simp add: saveSession_def isActive_def expired_def)+

lemma run_before_expiry:
  assumes "expiry (mSaveSessionTimer (prefs w)) = Some ex" and "clock (run es w) < ex"
  shows "mSaveSessionTimer (prefs (run es w)) = mSaveSessionTimer (prefs w)
       \<and> sessionSaves (prefs (run es w)) = sessionSaves (prefs w)"
  using assms
proof (induction es arbitrary: w)
  case Nil
  show ?case by simp
next
  case (Cons e es)
  have late: "clock (run es (step e w)) < ex" using Cons.prems(2) by simp
  have "clock w \<le> clock (step e w)" by (rule clock_step_mono)
  moreover have "clock (step e w) \<le> clock (run es (step e w))" by (rule clock_run_mono)
  ultimately have now: "clock w < ex" using late by linarith
  note st = step_before_expiry [OF Cons.prems(1) now, of e]
  have ex': "expiry (mSaveSessionTimer (prefs (step e w))) = Some ex"
    using st(1) Cons.prems(1) by simp
  from Cons.IH [OF ex' late] st show ?case by simp
qed

text \<open>
  C4: a call of \<^verbatim>\<open>saveSession\<close> while the timer is active changes nothing, so starts no
  new timer. Before the pending timer expires (within the second after the call that
  started it), whatever happens, the timer stays as it is and no session is written;
  the same holds for as long as the timer's event is not delivered. The delivery of the
  timer's event writes the session at most once. In every run of the event loop from
  the constructed state, two session writes are at least one second apart.
\<close>

theorem saveSession_coalesced:
  "(isActive (mSaveSessionTimer p) \<longrightarrow> saveSession now p = p)
 \<and> (expiry (mSaveSessionTimer (prefs w)) = Some ex \<and> clock (run es w) < ex \<longrightarrow>
       mSaveSessionTimer (prefs (run es w)) = mSaveSessionTimer (prefs w)
     \<and> sessionSaves (prefs (run es w)) = sessionSaves (prefs w))
 \<and> (TimerEvent \<notin> set es \<and> isActive (mSaveSessionTimer (prefs w)) \<longrightarrow>
       mSaveSessionTimer (prefs (run es w)) = mSaveSessionTimer (prefs w)
     \<and> sessionSaves (prefs (run es w)) = sessionSaves (prefs w))
 \<and> length (sessionSaves (prefs (step TimerEvent w))) \<le> Suc (length (sessionSaves (prefs w)))
 \<and> spaced 1000 (writeTimes (run es (startWorld p0)))"
proof -
  have 1: "isActive (mSaveSessionTimer p) \<longrightarrow> saveSession now p = p"
    by (simp add: saveSession_pending)
  have 2: "expiry (mSaveSessionTimer (prefs w)) = Some ex \<and> clock (run es w) < ex \<longrightarrow>
       mSaveSessionTimer (prefs (run es w)) = mSaveSessionTimer (prefs w)
     \<and> sessionSaves (prefs (run es w)) = sessionSaves (prefs w)"
    using run_before_expiry [of w ex es] by blast
  have 3: "TimerEvent \<notin> set es \<and> isActive (mSaveSessionTimer (prefs w)) \<longrightarrow>
       mSaveSessionTimer (prefs (run es w)) = mSaveSessionTimer (prefs w)
     \<and> sessionSaves (prefs (run es w)) = sessionSaves (prefs w)"
    using run_no_timer_event [of es w] by blast
  have 4: "length (sessionSaves (prefs (step TimerEvent w))) \<le> Suc (length (sessionSaves (prefs w)))"
    by (simp only: step_timer_event_writes(1)) simp
  have 5: "spaced 1000 (writeTimes (run es (startWorld p0)))"
    using timer_inv_run [OF timer_inv_startWorld, of es p0] by (simp add: timer_inv_def)
  from 1 2 3 4 5 show ?thesis by blast
qed

theorem saveSession_coalesced_witness:
  "writeTimes (run [SaveSessionCalled, TimePasses 300, SaveSessionCalled, TimePasses 300,
                    SaveSessionCalled, TimePasses 500, TimerEvent, TimePasses 50,
                    SaveSessionCalled, TimePasses 1000, TimerEvent]
                 (startWorld (freshPreferences [] ()))) = [2150, 1100]
 \<and> expiry (mSaveSessionTimer (prefs (run [TimePasses 300, SaveSessionCalled, TimerEvent,
                    TimePasses 300, SaveSessionCalled]
                 (step SaveSessionCalled (startWorld (freshPreferences [] ())))))) = Some 1000
 \<and> sessionSaves (prefs (run [TimePasses 300, SaveSessionCalled, TimerEvent,
                    TimePasses 300, SaveSessionCalled]
                 (step SaveSessionCalled (startWorld (freshPreferences [] ()))))) = []
 \<and> sessionSaves (prefs (run [TimePasses 700, SaveSessionCalled, TimePasses 700,
                    SaveSessionCalled]
                 (step SaveSessionCalled (startWorld (freshPreferences [] ()))))) = []"
  using saveSession_coalesced
      [of "prefs (step SaveSessionCalled (startWorld (freshPreferences [] ())))" 300
          "step SaveSessionCalled (startWorld (freshPreferences [] ()))" 1000
          "[TimePasses 300, SaveSessionCalled, TimerEvent, TimePasses 300, SaveSessionCalled]"
          "freshPreferences [] ()"]
    saveSession_coalesced
      [of "prefs (step SaveSessionCalled (startWorld (freshPreferences [] ())))" 300
          "step SaveSessionCalled (startWorld (freshPreferences [] ()))" 1000
          "[TimePasses 700, SaveSessionCalled, TimePasses 700, SaveSessionCalled]"
          "freshPreferences [] ()"]
    saveSession_coalesced
      [of "prefs (step SaveSessionCalled (startWorld (freshPreferences [] ())))" 300
          "step SaveSessionCalled (startWorld (freshPreferences [] ()))" 1000
          "[SaveSessionCalled, TimePasses 300, SaveSessionCalled, TimePasses 300,
                    SaveSessionCalled, TimePasses 500, TimerEvent, TimePasses 50,
                    SaveSessionCalled, TimePasses 1000, TimerEvent]"
          "freshPreferences [] ()"]
  by (simp add: startWorld_def setupSaveSessionTimer_def freshPreferences_def saveSession_def
      saveSessionNow_def isActive_def start_def stop_def expired_def rearm_def Let_def
      spaced_def)

end
